theory Spec2Isabelle
  imports Main
begin

section \<open>The R console of \<open>langchain/utilities/rconsole.py\<close>\<close>

text \<open>
  The module drives an R interpreter through the \<open>rpy2\<close> binding: \<open>RREPL.worker\<close>
  redirects R's print and message channels into two temporary files, evaluates one command
  under \<open>tryCatch\<close>, reads the files back and puts one mapping on a queue;
  \<open>RREPL.run\<close> calls the worker inline or in a child process that it joins with a
  timeout; \<open>warn_once\<close> is a memoised warning.

  The interpreter, the binding, the temporary files and the child process are not part of
  the module. They enter the model as a record of parameters (\<open>world\<close>): what a command
  does when evaluated, which of the external calls raises, the names of the temporary
  files, and what becomes of the child process. Every theorem below holds for all values
  of these parameters unless it says otherwise.
\<close>

subsection \<open>Values and exceptions\<close>

text \<open>R objects as they come back through the binding.\<close>

datatype rvalue = RNull | RNum int | RChr string

text \<open>
  The Python values that \<open>run\<close> returns: a string, an R object, or a mapping with
  string keys (kept in insertion order, as a \<open>dict\<close> literal is).
\<close>

datatype pyval = PStr string | PRObj rvalue | PDict "(string \<times> pyval) list"

text \<open>
  A raised exception with its \<open>str(e)\<close>. \<open>Exception\<close> stands for an instance of
  \<open>Exception\<close> or a subclass, which \<open>except Exception\<close> catches; \<open>BaseOnly\<close> for an
  instance of \<open>BaseException\<close> outside \<open>Exception\<close> (\<open>KeyboardInterrupt\<close>,
  \<open>SystemExit\<close>), which it does not.
\<close>

datatype exn = Exception string | BaseOnly string

fun str_exn :: "exn \<Rightarrow> string" where
  "str_exn (Exception m) = m"
| "str_exn (BaseOnly m) = m"

fun caught :: "exn \<Rightarrow> bool" where
  "caught (Exception m) = True"
| "caught (BaseOnly m) = False"

text \<open>Key lookup in a returned mapping; a value that is no mapping has no keys.\<close>

fun lookup :: "string \<Rightarrow> pyval \<Rightarrow> pyval option" where
  "lookup k (PDict d) = map_of d k"
| "lookup k (PStr s) = None"
| "lookup k (PRObj r) = None"

subsection \<open>The external world\<close>

text \<open>
  What evaluating one command does: the text it prints, the text it sends to the message
  channel, the global environment it leaves, and how it ends. \<open>Value v\<close>: it returns
  \<open>v\<close>. \<open>Condition c\<close>: it signals an R error, which \<open>tryCatch\<close> hands to the error
  handler of lines 34 to 42; \<open>c\<close> is what the handler's call \<open>showCondition(err)\<close> comes
  to, a function this module does not define: \<open>Inl m\<close> when the call fails with the R
  error message \<open>m\<close>, \<open>Inr ls\<close> when it yields the lines \<open>ls\<close>. \<open>Fault e\<close>: the
  binding raises the Python exception \<open>e\<close> and the handler has not run (a command that
  does not parse).
\<close>

datatype routcome = Value rvalue | Condition "string + string list" | Fault exn

record reval =
  printed :: string
  messaged :: string
  outcome :: routcome
  env_after :: "(string \<times> rvalue) list"

text \<open>The external calls of \<open>worker\<close> that may raise, in source order.\<close>

datatype site =
    MkTempOut | MkTempErr | SinkOut | SinkMsg | DefHandler
  | UnsinkMsg | UnsinkOut | ReadOut | ReadErr

text \<open>
  What becomes of the child process by the time \<open>p.join(timeout)\<close> returns: it ran the
  worker to its end, it is still alive, or it died before the worker put anything on the
  queue.
\<close>

datatype fate = Finishes | StillRunning | Crashes

record world =
  interp :: "string \<Rightarrow> (string \<times> rvalue) list \<Rightarrow> reval"
  faults :: "site \<Rightarrow> exn option"
  out_name :: string
  err_name :: string
  handler_value :: rvalue
  fate :: fate

subsection \<open>The state of one process\<close>

text \<open>
  \<open>warn_cached\<close> is the cache of \<open>functools.lru_cache\<close> around \<open>warn_once\<close> and
  \<open>log\<close> the warnings the logger received. \<open>out_sinks\<close> is R's stack of diversions of
  the print channel (empty: the console) and \<open>msg_sink\<close> the diversion of the message
  channel (none: the standard error stream). \<open>files\<close> holds the contents of files by name,
  \<open>console\<close> and \<open>errcon\<close> what reached the standard streams of the process,
  \<open>genv\<close> R's global environment, and \<open>queue\<close> the items of the result queue.
\<close>

record proc =
  warn_cached :: bool
  log :: "string list"
  out_sinks :: "string list"
  msg_sink :: "string option"
  files :: "string \<rightharpoonup> string"
  console :: string
  errcon :: string
  genv :: "(string \<times> rvalue) list"
  queue :: "pyval list"

subsection \<open>Statements that may raise\<close>

type_synonym 'a py = "proc \<Rightarrow> (exn + 'a) \<times> proc"

definition bind_py :: "'a py \<Rightarrow> ('a \<Rightarrow> 'b py) \<Rightarrow> 'b py" where
  "bind_py m f s = (case m s of (Inl e, s') \<Rightarrow> (Inl e, s') | (Inr a, s') \<Rightarrow> f a s')"

text \<open>\<open>try: m except Exception as e: h e\<close>.\<close>

definition try_py :: "'a py \<Rightarrow> (exn \<Rightarrow> 'a py) \<Rightarrow> 'a py" where
  "try_py m h s =
     (case m s of
        (Inl e, s') \<Rightarrow> if caught e then h e s' else (Inl e, s')
      | (Inr a, s') \<Rightarrow> (Inr a, s'))"

text \<open>
  \<open>with acquire as r: body r\<close>: the resource is released when the body is left, whether
  it returns or raises.
\<close>

definition with_py :: "'r py \<Rightarrow> ('r \<Rightarrow> proc \<Rightarrow> proc) \<Rightarrow> ('r \<Rightarrow> 'a py) \<Rightarrow> 'a py" where
  "with_py acquire release body s =
     (case acquire s of
        (Inl e, s1) \<Rightarrow> (Inl e, s1)
      | (Inr r, s1) \<Rightarrow> (case body r s1 of (x, s2) \<Rightarrow> (x, release r s2)))"

subsection \<open>Temporary files\<close>

text \<open>
  \<open>tempfile.NamedTemporaryFile(mode="w+", delete=True)\<close>: a new, empty file, removed
  when it is closed.
\<close>

definition mk_temp :: "world \<Rightarrow> site \<Rightarrow> string \<Rightarrow> string py" where
  "mk_temp w k name s =
     (case faults w k of
        Some e \<Rightarrow> (Inl e, s)
      | None \<Rightarrow> (Inr name, s\<lparr>files := (files s)(name \<mapsto> [])\<rparr>))"

definition close_temp :: "string \<Rightarrow> proc \<Rightarrow> proc" where
  "close_temp name s = s\<lparr>files := (files s)(name := None)\<rparr>"

text \<open>
  The file is open in text mode with the default \<open>newline=None\<close>: on reading, Python
  turns every \<open>\r\n\<close> and every lone \<open>\r\<close> into \<open>\n\<close>.
\<close>

definition CR :: char where "CR = CHR 0x0D"
definition LF :: char where "LF = CHR 0x0A"

fun universal_newlines :: "string \<Rightarrow> string" where
  "universal_newlines [] = []"
| "universal_newlines [c] = [if c = CR then LF else c]"
| "universal_newlines (c # d # ds) =
     (if c = CR then
        (if d = LF then LF # universal_newlines ds else LF # universal_newlines (d # ds))
      else c # universal_newlines (d # ds))"

text \<open>\<open>tempf.seek(0); tempf.read()\<close>.\<close>

definition read_temp :: "world \<Rightarrow> site \<Rightarrow> string \<Rightarrow> string py" where
  "read_temp w k name s =
     (case faults w k of
        Some e \<Rightarrow> (Inl e, s)
      | None \<Rightarrow>
          (Inr (universal_newlines (case files s name of None \<Rightarrow> [] | Some t \<Rightarrow> t)), s))"

subsection \<open>The R calls of the worker\<close>

text \<open>
  The effects follow the source's own comments on each call: \<open>sink("f")\<close> redirects the
  print output to the file \<open>f\<close>, \<open>sink("f", type = "message")\<close> redirects the messages,
  and the two calls without a file stop the redirection. R stacks the diversions of the
  print channel and keeps a single one for messages.

  For the message stream R's \<open>sink\<close> takes only \<open>NULL\<close> or a connection that is
  already open, and line 31 passes a file name: R refuses that call, whatever the command.
  Whether a call raises is the world's to say (\<open>faults\<close>), so the theorems that hold for
  every world cover this; the sample world below has the call of line 31 raise.
\<close>

definition append_file :: "string \<Rightarrow> string \<Rightarrow> (string \<rightharpoonup> string) \<Rightarrow> (string \<rightharpoonup> string)" where
  "append_file f t fs = fs(f \<mapsto> (case fs f of None \<Rightarrow> t | Some old \<Rightarrow> old @ t))"

definition emit_out :: "string \<Rightarrow> proc \<Rightarrow> proc" where
  "emit_out t s =
     (case out_sinks s of
        [] \<Rightarrow> s\<lparr>console := console s @ t\<rparr>
      | f # fs \<Rightarrow> s\<lparr>files := append_file f t (files s)\<rparr>)"

definition emit_msg :: "string \<Rightarrow> proc \<Rightarrow> proc" where
  "emit_msg t s =
     (case msg_sink s of
        None \<Rightarrow> s\<lparr>errcon := errcon s @ t\<rparr>
      | Some f \<Rightarrow> s\<lparr>files := append_file f t (files s)\<rparr>)"

definition r_sink_out :: "string \<Rightarrow> proc \<Rightarrow> proc" where
  "r_sink_out name s = s\<lparr>out_sinks := name # out_sinks s, files := (files s)(name \<mapsto> [])\<rparr>"

definition r_sink_msg :: "string \<Rightarrow> proc \<Rightarrow> proc" where
  "r_sink_msg name s = s\<lparr>msg_sink := Some name\<rparr>"

definition r_unsink_msg :: "proc \<Rightarrow> proc" where
  "r_unsink_msg s = s\<lparr>msg_sink := None\<rparr>"

definition r_unsink_out :: "proc \<Rightarrow> proc" where
  "r_unsink_out s = s\<lparr>out_sinks := tl (out_sinks s)\<rparr>"

text \<open>One \<open>robjects.r(code)\<close> call: it raises, or it has its effect.\<close>

definition r_call :: "world \<Rightarrow> site \<Rightarrow> (proc \<Rightarrow> proc) \<Rightarrow> unit py" where
  "r_call w k effect s =
     (case faults w k of
        Some e \<Rightarrow> (Inl e, s)
      | None \<Rightarrow> (Inr (), effect s))"

text \<open>\<open>writeLines(ls, fileConn)\<close> writes each line followed by a newline.\<close>

fun write_lines :: "string list \<Rightarrow> string" where
  "write_lines [] = []"
| "write_lines (l # ls) = l @ LF # write_lines ls"

text \<open>
  The handler of lines 34 to 42. It first stops both redirections (lines 36 and 37). Then
  it calls \<open>showCondition(err)\<close>: when that fails, the R error leaves \<open>tryCatch\<close> and
  the binding raises it; otherwise the handler overwrites the error file with the lines
  and returns the value of \<open>close(fileConn)\<close>.
\<close>

definition error_handler :: "world \<Rightarrow> string \<Rightarrow> string + string list \<Rightarrow> rvalue py" where
  "error_handler w tempf_err shown s =
     (let s1 = r_unsink_out (r_unsink_msg s)
      in case shown of
           Inl m \<Rightarrow> (Inl (Exception m), s1)
         | Inr ls \<Rightarrow>
             (Inr (handler_value w), s1\<lparr>files := (files s1)(tempf_err \<mapsto> write_lines ls)\<rparr>))"

text \<open>
  Line 45, \<open>robjects.r('tryCatch(command, error=handler)')\<close>. The code is evaluated in R's
  global environment: nothing else is passed to the call.
\<close>

definition r_tryCatch :: "world \<Rightarrow> string \<Rightarrow> string \<Rightarrow> rvalue py" where
  "r_tryCatch w command tempf_err s =
     (let ev = interp w command (genv s);
          s1 = (emit_msg (messaged ev) (emit_out (printed ev) s))\<lparr>genv := env_after ev\<rparr>
      in case outcome ev of
           Value v \<Rightarrow> (Inr v, s1)
         | Condition c \<Rightarrow> error_handler w tempf_err c s1
         | Fault e \<Rightarrow> (Inl e, s1))"

definition queue_put :: "pyval \<Rightarrow> unit py" where
  "queue_put v s = (Inr (), s\<lparr>queue := queue s @ [v]\<rparr>)"

subsection \<open>\<open>RREPL.worker\<close>\<close>

text \<open>The \<open>try\<close> block, lines 29 to 60.\<close>

definition guarded :: "world \<Rightarrow> string \<Rightarrow> string \<Rightarrow> string \<Rightarrow> unit py" where
  "guarded w command tempf_out tempf_err =
     bind_py (r_call w SinkOut (r_sink_out tempf_out)) (\<lambda>_.
     bind_py (r_call w SinkMsg (r_sink_msg tempf_err)) (\<lambda>_.
     bind_py (r_call w DefHandler id) (\<lambda>_.
     bind_py (r_tryCatch w command tempf_err) (\<lambda>res.
     bind_py (r_call w UnsinkMsg r_unsink_msg) (\<lambda>_.
     bind_py (r_call w UnsinkOut r_unsink_out) (\<lambda>_.
     bind_py (read_temp w ReadOut tempf_out) (\<lambda>output.
     bind_py (read_temp w ReadErr tempf_err) (\<lambda>error.
     queue_put (PDict [(''res'', PRObj res), (''output'', PStr output),
                       (''err'', PStr error)])))))))))"

text \<open>
  The whole method. The \<open>environment\<close> argument is an \<open>Optional[Dict]\<close>; the body
  never mentions it.
\<close>

definition worker :: "world \<Rightarrow> string \<Rightarrow> (string \<times> rvalue) list option \<Rightarrow> unit py" where
  "worker w command environment =
     with_py (mk_temp w MkTempOut (out_name w)) close_temp (\<lambda>tempf_out.
     with_py (mk_temp w MkTempErr (err_name w)) close_temp (\<lambda>tempf_err.
       try_py (guarded w command tempf_out tempf_err)
         (\<lambda>e. queue_put (PDict [(''err'', PStr (str_exn e))]))))"

subsection \<open>\<open>warn_once\<close> and \<open>RREPL.run\<close>\<close>

definition warning_text :: string where
  "warning_text = ''R REPL can execute arbitrary code. Use with caution.''"

definition warn_once :: "proc \<Rightarrow> proc" where
  "warn_once s =
     (if warn_cached s then s
      else s\<lparr>log := log s @ [warning_text], warn_cached := True\<rparr>)"

record rrepl =
  environment :: "(string \<times> rvalue) list option"

text \<open>How a call ends when it ends; a call that blocks for ever has no such value.\<close>

datatype 'a ret = Returned 'a | Raised exn

text \<open>
  \<open>queue.get()\<close> with no timeout: the first item, or, on a queue that nothing will be
  put on any more, no return at all.
\<close>

definition queue_get :: "proc \<Rightarrow> pyval ret option \<times> proc" where
  "queue_get s =
     (case queue s of
        [] \<Rightarrow> (None, s)
      | v # q \<Rightarrow> (Some (Returned v), s\<lparr>queue := q\<rparr>))"

text \<open>
  With a timeout the worker runs in a child process, on a copy of the caller's memory;
  of what the child does, only the items of the queue reach the caller.
\<close>

definition run :: "world \<Rightarrow> rrepl \<Rightarrow> string \<Rightarrow> int option \<Rightarrow> proc \<Rightarrow> pyval ret option \<times> proc" where
  "run w self command timeout s0 =
     (let s = (warn_once s0)\<lparr>queue := []\<rparr>
      in case timeout of
           Some t \<Rightarrow>
             (case fate w of
                StillRunning \<Rightarrow> (Some (Returned (PStr ''Execution timed out'')), s)
              | Crashes \<Rightarrow> queue_get s
              | Finishes \<Rightarrow>
                  (case worker w command (environment self) s of
                     (r, child) \<Rightarrow> queue_get (s\<lparr>queue := queue child\<rparr>)))
         | None \<Rightarrow>
             (case worker w command (environment self) s of
                (Inl e, s') \<Rightarrow> (Some (Raised e), s')
              | (Inr u, s') \<Rightarrow> queue_get s'))"

text \<open>
  Calls made one after the other in one process; a call that never returns is the last.
\<close>

fun runs :: "(world \<times> rrepl \<times> string \<times> int option) list \<Rightarrow> proc \<Rightarrow> proc" where
  "runs [] s = s"
| "runs ((w, self, command, timeout) # rest) s =
     (case run w self command timeout s of
        (None, s') \<Rightarrow> s'
      | (Some r, s') \<Rightarrow> runs rest s')"

subsection \<open>The class statement\<close>

text \<open>
  Line 22 declares the only field, \<open>environment: Optional[Dict] =
  Field(default_factory=robjects.globalenv)\<close>. When the class statement runs, the
  module's globals hold the names bound by lines 1 to 16: the imports, \<open>logger\<close> and
  \<open>warn_once\<close>. Of \<open>typing\<close>, line 5 imports \<open>Optional\<close> alone. None of the names
  looked up below is a builtin, so the globals decide each lookup.
\<close>

definition module_names :: "string list" where
  "module_names =
     [''functools'', ''logging'', ''multiprocessing'', ''tempfile'', ''Optional'',
      ''robjects'', ''BaseModel'', ''Field'', ''logger'', ''warn_once'']"

definition name_error :: "string \<Rightarrow> exn" where
  "name_error n = Exception (''name '' @ [CHR 0x27] @ n @ [CHR 0x27] @ '' is not defined'')"

definition load_name :: "string \<Rightarrow> exn + unit" where
  "load_name n = (if n \<in> set module_names then Inr () else Inl (name_error n))"

fun load_names :: "string list \<Rightarrow> exn + unit" where
  "load_names [] = Inr ()"
| "load_names (n # ns) = (case load_name n of Inl e \<Rightarrow> Inl e | Inr u \<Rightarrow> load_names ns)"

text \<open>
  The class statement looks up its base, then, in the body, the names of the assigned
  value and after them the names of the annotation.
\<close>

definition class_RREPL :: "exn + unit" where
  "class_RREPL = load_names [''BaseModel'', ''Field'', ''robjects'', ''Optional'', ''Dict'']"

text \<open>
  \<open>RREPL(environment=...)\<close> or \<open>RREPL()\<close>. The argument is \<open>None\<close> when it is
  omitted; the field then takes what calling the default factory gives, and that call
  belongs to the binding, so its result is a parameter.
\<close>

definition new_RREPL ::
  "(exn + (string \<times> rvalue) list option) \<Rightarrow> (string \<times> rvalue) list option option \<Rightarrow> exn + rrepl" where
  "new_RREPL default_factory arg =
     (case class_RREPL of
        Inl e \<Rightarrow> Inl e
      | Inr u \<Rightarrow>
          (case arg of
             Some env \<Rightarrow> Inr \<lparr>environment = env\<rparr>
           | None \<Rightarrow>
               (case default_factory of
                  Inl e \<Rightarrow> Inl e
                | Inr env \<Rightarrow> Inr \<lparr>environment = env\<rparr>)))"

subsection \<open>The outcome as the specification reads it\<close>



subsection \<open>Sample inputs\<close>

text \<open>
  What a few R commands would do when evaluated: an assignment, a variable read (an error
  when the variable is unbound), a \<open>cat\<close> of the three characters \<open>a\<close>, carriage
  return, \<open>b\<close>, a \<open>print\<close>, a \<open>stop\<close>, and a text that does not parse. On an error
  the handler's \<open>showCondition\<close> is taken to fail, base R having no such function.
\<close>

definition sample_interp :: "string \<Rightarrow> (string \<times> rvalue) list \<Rightarrow> reval" where
  "sample_interp command env =
     (if command = ''x <- 1'' then
        \<lparr>printed = [], messaged = [], outcome = Value (RNum 1), env_after = (''x'', RNum 1) # env\<rparr>
      else if command = ''x'' then
        (case map_of env ''x'' of
           Some v \<Rightarrow> \<lparr>printed = [], messaged = [], outcome = Value v, env_after = env\<rparr>
         | None \<Rightarrow> \<lparr>printed = [], messaged = [],
                     outcome = Condition (Inl ''could not find function showCondition''),
                     env_after = env\<rparr>)
      else if command = ''cat(intToUtf8(c(97, 13, 98)))'' then
        \<lparr>printed = [CHR ''a'', CR, CHR ''b''], messaged = [], outcome = Value RNull,
         env_after = env\<rparr>
      else if command = ''print(1)'' then
        \<lparr>printed = ''[1] 1'' @ [LF], messaged = [], outcome = Value (RNum 1), env_after = env\<rparr>
      else if command = ''stop(1)'' then
        \<lparr>printed = [], messaged = [],
         outcome = Condition (Inl ''could not find function showCondition''), env_after = env\<rparr>
      else if command = '')'' then
        \<lparr>printed = [], messaged = [],
         outcome = Fault (Exception ''Error while parsing the string.''), env_after = env\<rparr>
      else \<lparr>printed = [], messaged = [], outcome = Value RNull, env_after = env\<rparr>)"

text \<open>
  The sample world: the temporary files are created, the first \<open>sink\<close> succeeds, and
  the \<open>sink\<close> of line 31 raises with R's refusal.
\<close>

definition sink_refusal :: string where
  "sink_refusal = ''file must be NULL or an already open connection''"

definition sample_world :: world where
  "sample_world =
     \<lparr>interp = sample_interp, faults = (\<lambda>k. None)(SinkMsg \<mapsto> Exception sink_refusal),
      out_name = ''/tmp/tmpa'', err_name = ''/tmp/tmpb'', handler_value = RNull,
      fate = Finishes\<rparr>"

definition fresh_proc :: proc where
  "fresh_proc =
     \<lparr>warn_cached = False, log = [], out_sinks = [], msg_sink = None, files = Map.empty,
      console = [], errcon = [], genv = [], queue = []\<rparr>"

definition an_rrepl :: rrepl where
  "an_rrepl = \<lparr>environment = None\<rparr>"



definition slow_world :: world where
  "slow_world = sample_world\<lparr>fate := StillRunning\<rparr>"

section \<open>Properties\<close>

subsection \<open>The paths through the worker\<close>

lemmas prim_defs = bind_py_def try_py_def with_py_def mk_temp_def close_temp_def read_temp_def
  r_call_def r_tryCatch_def queue_put_def error_handler_def r_unsink_out_def r_unsink_msg_def
  r_sink_out_def r_sink_msg_def emit_out_def emit_msg_def

lemmas sample_defs = sample_world_def sample_interp_def fresh_proc_def sink_refusal_def

lemmas worker_defs = worker_def guarded_def prim_defs append_file_def Let_def

text \<open>
  The \<open>try\<close> block either runs to its end and puts the full mapping on the queue, or
  raises without touching the queue; what it raises comes from one of the external calls,
  from the evaluation, or from the error handler.
\<close>

lemma guarded_disj:
  "(\<exists>s' r out err. guarded w c tout terr s = (Inr (), s') \<and>
       queue s' = queue s @ [PDict [(''res'', PRObj r), (''output'', PStr out), (''err'', PStr err)]])
   \<or> (\<exists>e s'. guarded w c tout terr s = (Inl e, s') \<and> queue s' = queue s \<and>
         ((\<exists>k. faults w k = Some e) \<or> outcome (interp w c (genv s)) = Fault e \<or>
          (\<exists>m. outcome (interp w c (genv s)) = Condition (Inl m) \<and> e = Exception m)))"
  unfolding guarded_def prim_defs Let_def
  by (auto split: option.splits routcome.splits list.splits sum.splits)

lemma guarded_cases:
  obtains (ok) s' r out err where "guarded w c tout terr s = (Inr (), s')"
      "queue s' = queue s @ [PDict [(''res'', PRObj r), (''output'', PStr out), (''err'', PStr err)]]"
  | (bad) e s' where "guarded w c tout terr s = (Inl e, s')" "queue s' = queue s"
      "(\<exists>k. faults w k = Some e) \<or> outcome (interp w c (genv s)) = Fault e \<or>
       (\<exists>m. outcome (interp w c (genv s)) = Condition (Inl m) \<and> e = Exception m)"
  using guarded_disj [of w c tout terr s] by blast

lemma worker_ok_temps:
  assumes "faults w MkTempOut = None" "faults w MkTempErr = None"
  shows "worker w c env s =
    (case try_py (guarded w c (out_name w) (err_name w))
            (\<lambda>e. queue_put (PDict [(''err'', PStr (str_exn e))]))
            (s\<lparr>files := (files s)(out_name w \<mapsto> [], err_name w \<mapsto> [])\<rparr>) of
       (x, s2) \<Rightarrow> (x, close_temp (out_name w) (close_temp (err_name w) s2)))"
  using assms by (simp add: worker_def with_py_def mk_temp_def split: prod.splits)

lemma worker_cases:
  obtains (full) s' r out err where "worker w c env s = (Inr (), s')"
      "queue s' = queue s @ [PDict [(''res'', PRObj r), (''output'', PStr out), (''err'', PStr err)]]"
  | (handled) s' e where "worker w c env s = (Inr (), s')" "caught e"
      "queue s' = queue s @ [PDict [(''err'', PStr (str_exn e))]]"
  | (no_temp) e s' where "worker w c env s = (Inl e, s')" "queue s' = queue s"
      "faults w MkTempOut = Some e \<or> faults w MkTempErr = Some e"
  | (escaped) e s' where "worker w c env s = (Inl e, s')" "queue s' = queue s" "\<not> caught e"
      "(\<exists>k. faults w k = Some e) \<or> outcome (interp w c (genv s)) = Fault e"
proof (cases "faults w MkTempOut")
  case (Some e)
  have "worker w c env s = (Inl e, s)"
    using Some by (simp add: worker_def with_py_def mk_temp_def)
  then show ?thesis by (rule no_temp) (simp_all add: Some)
next
  case None
  note o = None
  show ?thesis
  proof (cases "faults w MkTempErr")
    case (Some e)
    have "worker w c env s = (Inl e, close_temp (out_name w) (s\<lparr>files := (files s)(out_name w \<mapsto> [])\<rparr>))"
      using Some o by (simp add: worker_def with_py_def mk_temp_def)
    then show ?thesis by (rule no_temp) (simp_all add: Some close_temp_def)
  next
    case None
    let ?s1 = "s\<lparr>files := (files s)(out_name w \<mapsto> [], err_name w \<mapsto> [])\<rparr>"
    have g: "genv ?s1 = genv s" "queue ?s1 = queue s" by simp_all
    note wk = worker_ok_temps [OF o None, of c env s]
    have q: "queue (close_temp (out_name w) (close_temp (err_name w) t)) = queue t" for t
      by (simp add: close_temp_def)
    show ?thesis
    proof (cases rule: guarded_cases [of w c "out_name w" "err_name w" ?s1])
      case (ok s' r out err)
      note a = ok(1) and b = ok(2)
      have "worker w c env s = (Inr (), close_temp (out_name w) (close_temp (err_name w) s'))"
        using a by (simp add: wk try_py_def)
      then show ?thesis
        by (rule full) (simp add: q b)
    next
      case (bad e s')
      note a = bad(1) and b = bad(2) and c = bad(3)
      have c'': "(\<exists>k. faults w k = Some e) \<or> outcome (interp w c (genv s)) = Fault e \<or>
          (\<exists>m. outcome (interp w c (genv s)) = Condition (Inl m) \<and> e = Exception m)"
        using c by simp
      show ?thesis
      proof (cases "caught e")
        case True
        let ?s2 = "s'\<lparr>queue := queue s' @ [PDict [(''err'', PStr (str_exn e))]]\<rparr>"
        have "worker w c env s = (Inr (), close_temp (out_name w) (close_temp (err_name w) ?s2))"
          using a True by (simp add: wk try_py_def queue_put_def)
        then show ?thesis
          using True
        proof (rule handled)
          show "queue (close_temp (out_name w) (close_temp (err_name w) ?s2)) =
              queue s @ [PDict [(''err'', PStr (str_exn e))]]"
            using b by (simp add: q)
        qed
      next
        case False
        have c': "(\<exists>k. faults w k = Some e) \<or> outcome (interp w c (genv s)) = Fault e"
          using c'' False by auto
        have "worker w c env s = (Inl e, close_temp (out_name w) (close_temp (err_name w) s'))"
          using a False by (simp add: wk try_py_def)
        then show ?thesis
        proof (rule escaped)
          show "queue (close_temp (out_name w) (close_temp (err_name w) s')) = queue s"
            using b by (simp add: q)
          show "\<not> caught e" by (rule False)
          show "(\<exists>k. faults w k = Some e) \<or> outcome (interp w c (genv s)) = Fault e"
            by (rule c')
        qed
      qed
    qed
  qed
qed

lemma guarded_frame:
  "log (snd (guarded w c tout terr s)) = log s \<and>
   warn_cached (snd (guarded w c tout terr s)) = warn_cached s"
  unfolding guarded_def prim_defs Let_def
  by (auto split: option.splits routcome.splits list.splits sum.splits)

lemma worker_frame:
  "log (snd (worker w c env s)) = log s \<and> warn_cached (snd (worker w c env s)) = warn_cached s"
proof (cases "faults w MkTempOut")
  case (Some e)
  then show ?thesis by (simp add: worker_def with_py_def mk_temp_def)
next
  case None
  note o = None
  show ?thesis
  proof (cases "faults w MkTempErr")
    case (Some e)
    then show ?thesis using o by (simp add: worker_def with_py_def mk_temp_def close_temp_def)
  next
    case None
    let ?s1 = "s\<lparr>files := (files s)(out_name w \<mapsto> [], err_name w \<mapsto> [])\<rparr>"
    obtain x s' where g: "guarded w c (out_name w) (err_name w) ?s1 = (x, s')"
      by (cases "guarded w c (out_name w) (err_name w) ?s1")
    from guarded_frame [of w c "out_name w" "err_name w" ?s1] g
    have f: "log s' = log s" "warn_cached s' = warn_cached s" by simp_all
    show ?thesis
      using g f
      by (cases x) (simp_all add: worker_ok_temps [OF o None] try_py_def queue_put_def close_temp_def)
  qed
qed






subsection \<open>The paths through \<open>run\<close>\<close>

lemma queue_get_single:
  "queue s = [v] \<Longrightarrow> fst (queue_get s) = Some (Returned v)"
  by (simp add: queue_get_def)

lemma queue_get_empty:
  "queue s = [] \<Longrightarrow> fst (queue_get s) = None"
  by (simp add: queue_get_def)

lemma run_inline:
  "run w self c None s0 =
     (case worker w c (environment self) ((warn_once s0)\<lparr>queue := []\<rparr>) of
        (Inl e, s') \<Rightarrow> (Some (Raised e), s')
      | (Inr u, s') \<Rightarrow> queue_get s')"
  by (simp add: run_def)

lemma run_child:
  "run w self c (Some t) s0 =
     (case fate w of
        StillRunning \<Rightarrow> (Some (Returned (PStr ''Execution timed out'')), (warn_once s0)\<lparr>queue := []\<rparr>)
      | Crashes \<Rightarrow> queue_get ((warn_once s0)\<lparr>queue := []\<rparr>)
      | Finishes \<Rightarrow>
          queue_get ((warn_once s0)\<lparr>queue :=
            queue (snd (worker w c (environment self) ((warn_once s0)\<lparr>queue := []\<rparr>)))\<rparr>))"
  by (simp add: run_def split: fate.splits prod.splits)

lemma run_returns_deposit:
  assumes "fst (run w self c timeout s0) = Some (Returned v)"
  shows "v = PStr ''Execution timed out'' \<or>
    queue (snd (worker w c (environment self) ((warn_once s0)\<lparr>queue := []\<rparr>))) = [v]"
proof (cases timeout)
  case None
  let ?s = "(warn_once s0)\<lparr>queue := []\<rparr>"
  show ?thesis
  proof (cases rule: worker_cases [of w c "environment self" ?s])
    case (full s' r out err)
    then show ?thesis using assms None by (simp add: run_inline queue_get_def)
  next
    case (handled s' e)
    then show ?thesis using assms None by (simp add: run_inline queue_get_def)
  next
    case (no_temp e s')
    then show ?thesis using assms None by (simp add: run_inline)
  next
    case (escaped e s')
    then show ?thesis using assms None by (simp add: run_inline)
  qed
next
  case (Some t)
  let ?s = "(warn_once s0)\<lparr>queue := []\<rparr>"
  show ?thesis
  proof (cases "fate w")
    case Finishes
    show ?thesis
    proof (cases rule: worker_cases [of w c "environment self" ?s])
      case (full s' r out err)
      then show ?thesis using assms Some Finishes by (simp add: run_child queue_get_def)
    next
      case (handled s' e)
      then show ?thesis using assms Some Finishes by (simp add: run_child queue_get_def)
    next
      case (no_temp e s')
      then show ?thesis using assms Some Finishes by (simp add: run_child queue_get_def)
    next
      case (escaped e s')
      then show ?thesis using assms Some Finishes by (simp add: run_child queue_get_def)
    qed
  next
    case StillRunning
    then show ?thesis using assms Some by (simp add: run_child)
  next
    case Crashes
    then show ?thesis using assms Some by (simp add: run_child queue_get_def)
  qed
qed



lemma run_log:
  "log (snd (run w self c timeout s)) = log (warn_once s) \<and> warn_cached (snd (run w self c timeout s))"
proof (cases timeout)
  case None
  let ?s = "(warn_once s)\<lparr>queue := []\<rparr>"
  obtain x s' where wk: "worker w c (environment self) ?s = (x, s')"
    by (cases "worker w c (environment self) ?s")
  from worker_frame [of w c "environment self" ?s] wk
  have f: "log s' = log (warn_once s)" "warn_cached s' = warn_cached (warn_once s)" by simp_all
  have c: "warn_cached (warn_once s)" by (simp add: warn_once_def)
  show ?thesis using None wk f c
    by (cases x) (simp_all add: run_inline queue_get_def split: list.splits)
next
  case (Some t)
  have c: "warn_cached (warn_once s)" by (simp add: warn_once_def)
  show ?thesis using Some c
    by (cases "fate w") (simp_all add: run_child queue_get_def split: list.splits)
qed

lemma runs_log_cached:
  "warn_cached s \<Longrightarrow> log (runs calls s) = log s"
proof (induction calls arbitrary: s)
  case Nil
  then show ?case by simp
next
  case (Cons a calls)
  obtain w self c timeout where a: "a = (w, self, c, timeout)" by (cases a)
  obtain r s' where r: "run w self c timeout s = (r, s')" by (cases "run w self c timeout s")
  from run_log [of w self c timeout s] r Cons.prems
  have f: "log s' = log s" "warn_cached s'" by (simp_all add: warn_once_def)
  show ?case
  proof (cases r)
    case None
    then show ?thesis using a r f by simp
  next
    case (Some x)
    then show ?thesis using a r f Cons.IH [of s'] by simp
  qed
qed

subsection \<open>The worker\<close>




text \<open>
  C10. The worker never reads its \<open>environment\<close> parameter: for every command, the
  result and the state it leaves are the same whatever environment handle is supplied;
  the evaluation uses R's global environment.
\<close>

theorem worker_ignores_environment:
  "worker w command e1 s = worker w command e2 s"
  by (simp add: worker_def)

text \<open>
  C6. The claim asks for both channels to be restored when a step raises. The worker
  stops the redirection on lines 48 and 49, inside the \<open>try\<close> block and after the
  evaluation, and the R error handler stops it too; the \<open>except\<close> branch of lines 62
  and 63 does not. In the sample world line 31 raises: the worker returns with the print
  channel still diverted to the first temporary file, where before the call it was not
  diverted. Were line 31 to succeed, a command that does not parse would make the binding
  raise at line 45, and the worker would return with both channels still diverted.
\<close>

theorem worker_leaves_sinks_redirected:
  "out_sinks fresh_proc = [] \<and> msg_sink fresh_proc = None \<and>
   fst (worker sample_world '')'' None fresh_proc) = Inr () \<and>
   queue (snd (worker sample_world '')'' None fresh_proc)) = [PDict [(''err'', PStr sink_refusal)]] \<and>
   out_sinks (snd (worker sample_world '')'' None fresh_proc)) = [''/tmp/tmpa''] \<and>
   fst (worker (sample_world\<lparr>faults := (\<lambda>k. None)\<rparr>) '')'' None fresh_proc) = Inr () \<and>
   out_sinks (snd (worker (sample_world\<lparr>faults := (\<lambda>k. None)\<rparr>) '')'' None fresh_proc)) =
     [''/tmp/tmpa''] \<and>
   msg_sink (snd (worker (sample_world\<lparr>faults := (\<lambda>k. None)\<rparr>) '')'' None fresh_proc)) =
     Some ''/tmp/tmpb''"
  by (simp add: sample_defs worker_defs)

subsection \<open>What \<open>run\<close> returns\<close>

text \<open>
  C2, as stated, fails: \<open>run\<close> returns the mapping of line 63, which has no
  \<open>output\<close> (and no \<open>res\<close>) and is not a timeout indicator; and the timeout indicator
  of line 89 is a plain string.
\<close>

theorem run_return_shapes_counterexample:
  "fst (run sample_world an_rrepl '')'' None fresh_proc) =
     Some (Returned (PDict [(''err'', PStr sink_refusal)])) \<and>
   lookup ''output'' (PDict [(''err'', PStr sink_refusal)]) = None \<and>
   fst (run slow_world an_rrepl ''x'' (Some 1) fresh_proc) =
     Some (Returned (PStr ''Execution timed out''))"
  by (simp add: slow_world_def an_rrepl_def sample_defs run_def warn_once_def queue_get_def worker_defs)

text \<open>
  C2, amended. Every value \<open>run\<close> returns is the string \<open>Execution timed out\<close>, or
  the mapping with the keys \<open>res\<close>, \<open>output\<close> and \<open>err\<close>, or the mapping with the
  single key \<open>err\<close>. A mapping is never a string, so the caller tells the timeout from
  an outcome by the type of the value.
\<close>

theorem run_return_shapes:
  assumes "fst (run w self command timeout s) = Some (Returned v)"
  shows "v = PStr ''Execution timed out'' \<or>
    (\<exists>r out err. v = PDict [(''res'', PRObj r), (''output'', PStr out), (''err'', PStr err)]) \<or>
    (\<exists>m. v = PDict [(''err'', PStr m)])"
proof -
  let ?s = "(warn_once s)\<lparr>queue := []\<rparr>"
  from run_returns_deposit [OF assms]
  consider "v = PStr ''Execution timed out''"
    | "queue (snd (worker w command (environment self) ?s)) = [v]" by blast
  then show ?thesis
  proof cases
    case 1
    then show ?thesis by simp
  next
    case 2
    show ?thesis
    proof (cases rule: worker_cases [of w command "environment self" ?s])
      case (full s' r out err)
      then show ?thesis using 2 by auto
    next
      case (handled s' e)
      then show ?thesis using 2 by auto
    next
      case (no_temp e s')
      then show ?thesis using 2 by auto
    next
      case (escaped e s')
      then show ?thesis using 2 by auto
    qed
  qed
qed

text \<open>
  An instance: an assignment run inline in the sample world returns the mapping with the
  single key.
\<close>

theorem run_return_shapes_witness:
  "fst (run sample_world an_rrepl ''x <- 1'' None fresh_proc) =
     Some (Returned (PDict [(''err'', PStr sink_refusal)])) \<and>
   (PDict [(''err'', PStr sink_refusal)] = PStr ''Execution timed out'' \<or>
    (\<exists>r out err. PDict [(''err'', PStr sink_refusal)] =
        PDict [(''res'', PRObj r), (''output'', PStr out), (''err'', PStr err)]) \<or>
    (\<exists>m. PDict [(''err'', PStr sink_refusal)] = PDict [(''err'', PStr m)]))"
proof -
  have h: "fst (run sample_world an_rrepl ''x <- 1'' None fresh_proc) =
     Some (Returned (PDict [(''err'', PStr sink_refusal)]))"
    by (simp add: an_rrepl_def sample_defs run_def warn_once_def queue_get_def worker_defs)
  from h run_return_shapes [OF h] show ?thesis by (rule conjI)
qed

text \<open>
  C4. With a timeout, when the child dies without having put anything on the queue,
  \<open>p.join\<close> returns, \<open>p.is_alive()\<close> is false, and \<open>run\<close> goes on to the
  \<open>queue.get()\<close> of line 94, which has no timeout and an empty queue: the call never
  returns, where the claim has it return the timeout report. The same happens when the
  child ends because the worker raised before its \<open>try\<close> block.
\<close>

theorem run_blocks_when_child_dies:
  "fst (run (w\<lparr>fate := Crashes\<rparr>) self command (Some t) s) = None \<and>
   fst (run (w\<lparr>fate := Finishes, faults := (faults w)(MkTempOut \<mapsto> e)\<rparr>) self command (Some t) s) = None"
  by (simp add: run_child queue_get_def worker_def with_py_def mk_temp_def)

text \<open>
  C3. The claim has \<open>run\<close> return the text the command printed. Whenever the
  \<open>sink\<close> of line 31 raises, which R makes it do for every command, the worker leaves
  the \<open>try\<close> block before the command is evaluated and \<open>run\<close> returns the mapping of
  line 63, inline and through a child alike: it has no \<open>output\<close> at all. So for
  \<open>print(1)\<close>, which would print a line, nothing of it comes back.
\<close>

theorem run_returns_no_output:
  "fst (run (w\<lparr>faults := (\<lambda>k. None)(SinkMsg \<mapsto> Exception m)\<rparr>) self command None s) =
     Some (Returned (PDict [(''err'', PStr m)])) \<and>
   fst (run (w\<lparr>faults := (\<lambda>k. None)(SinkMsg \<mapsto> Exception m), fate := Finishes\<rparr>)
          self command (Some t) s) =
     Some (Returned (PDict [(''err'', PStr m)])) \<and>
   lookup ''output'' (PDict [(''err'', PStr m)]) = None \<and>
   printed (interp sample_world ''print(1)'' (genv fresh_proc)) = ''[1] 1'' @ [LF] \<and>
   fst (run sample_world an_rrepl ''print(1)'' None fresh_proc) =
     Some (Returned (PDict [(''err'', PStr sink_refusal)]))"
  by (simp add: an_rrepl_def sample_defs run_def warn_once_def queue_get_def worker_defs)



subsection \<open>Calls in sequence\<close>



text \<open>
  C9. In a process that has not yet warned, any non-empty sequence of calls to \<open>run\<close>,
  on any instances, with or without a timeout, adds exactly one warning to the log.
\<close>

theorem warning_emitted_once:
  assumes "calls \<noteq> []" and "\<not> warn_cached s"
  shows "log (runs calls s) = log s @ [warning_text]"
proof -
  obtain a rest where calls: "calls = a # rest" using assms(1) by (cases calls) auto
  obtain w self c timeout where a: "a = (w, self, c, timeout)" by (cases a)
  obtain r s' where r: "run w self c timeout s = (r, s')" by (cases "run w self c timeout s")
  from run_log [of w self c timeout s] r assms(2)
  have f: "log s' = log s @ [warning_text]" "warn_cached s'" by (simp_all add: warn_once_def)
  show ?thesis
  proof (cases r)
    case None
    then show ?thesis using calls a r f by simp
  next
    case (Some x)
    then show ?thesis using calls a r f runs_log_cached [of s' rest] by simp
  qed
qed

text \<open>
  An instance: three calls on two instances, the second one timing out.
\<close>

theorem warning_emitted_once_witness:
  "log (runs [(sample_world, an_rrepl, ''x <- 1'', None),
              (slow_world, \<lparr>environment = Some []\<rparr>, ''x'', Some 1),
              (sample_world, an_rrepl, ''x'', None)] fresh_proc) = [warning_text]"
proof -
  have "\<not> warn_cached fresh_proc" "log fresh_proc = []" by (simp_all add: fresh_proc_def)
  with warning_emitted_once [of "[(sample_world, an_rrepl, ''x <- 1'', None),
              (slow_world, \<lparr>environment = Some []\<rparr>, ''x'', Some 1),
              (sample_world, an_rrepl, ''x'', None)]" fresh_proc]
  show ?thesis by simp
qed

subsection \<open>Construction\<close>

text \<open>
  C8. The claim has \<open>RREPL()\<close> bind the global environment. The annotation of line 22
  names \<open>Dict\<close>, which the module never binds, so the class statement raises a
  \<open>NameError\<close> and no instance is constructed, whatever the default factory would
  give. The sections above take the bodies of the two methods as they are written.
\<close>

theorem new_RREPL_raises:
  "new_RREPL default_factory None = Inl (name_error ''Dict'')"
  by (simp add: new_RREPL_def class_RREPL_def load_name_def module_names_def)

end
